theory Spec2Isabelle
  imports
    Complex_Main
    "HOL-Library.Char_ord"
    "HOL-Library.List_Lexorder"
    "HOL-Library.Option_ord"
    "HOL-Library.AList"
begin

section \<open>Data frames\<close>

text \<open>
  The dashboard of \<^verbatim>\<open>Streamlit.py\<close> is a straight-line script over a pandas data frame.
  A frame is modelled column by column, as pandas stores it: an association list from
  column labels to columns, in the order of \<^verbatim>\<open>df.columns\<close>. A column read by
  \<^verbatim>\<open>pd.read_csv\<close> is either a text column (dtype \<^verbatim>\<open>object\<close>: strings, a blank field
  being the missing value \<^verbatim>\<open>NaN\<close>) or a numeric column (\<^verbatim>\<open>int64\<close> or \<^verbatim>\<open>float64\<close>,
  a blank field again missing). A missing cell is \<open>None\<close>.

  Numbers are exact rationals: the rounding of \<^verbatim>\<open>float64\<close> arithmetic and the range of
  \<^verbatim>\<open>int64\<close> are outside this model. The row labels (the index) are not modelled either;
  no computation of the script reads them. Strings are byte strings, ordered
  lexicographically by byte, which for UTF-8 text is Python's order by code point.
\<close>

datatype columna = Texto "string option list" | Numerica "rat option list"

type_synonym frame = "(string \<times> columna) list"

text \<open>A single cell value as Python sees it: a selected region, a selected salesperson.\<close>

datatype valor = Txt string | Num rat | NaN

datatype error =
    FileNotFound          \<comment> \<open>\<^verbatim>\<open>except FileNotFoundError\<close> in \<^verbatim>\<open>load_data\<close>\<close>
  | LoadError             \<comment> \<open>\<^verbatim>\<open>except Exception\<close> in \<^verbatim>\<open>load_data\<close>\<close>
  | SchemaError           \<comment> \<open>the name columns are absent\<close>
  | KeyError string       \<comment> \<open>a later stage reads a column that the frame lacks\<close>
  | Inesperado            \<comment> \<open>any other exception of a later stage\<close>

text \<open>What \<^verbatim>\<open>pd.read_csv(file_name)\<close> did: the file system and the parser are inputs here.\<close>

datatype lectura = NoEncontrado | Ilegible | Leido frame

definition COLUMNA_REGION :: string where "COLUMNA_REGION = ''REGION''"
definition COLUMNA_VENTAS :: string where "COLUMNA_VENTAS = ''VENTAS TOTALES''"
definition COLUMNA_UNIDADES :: string where "COLUMNA_UNIDADES = ''UNIDADES VENDIDAS''"
definition COLUMNA_VENDEDOR :: string where "COLUMNA_VENDEDOR = ''Vendedor''"

subsection \<open>The pandas operations the script calls\<close>

text \<open>\<^verbatim>\<open>df[c]\<close>: the column, or \<^verbatim>\<open>KeyError\<close>.\<close>

definition col :: "frame \<Rightarrow> string \<Rightarrow> error + columna" where
  "col df c = (case map_of df c of None \<Rightarrow> Inl (KeyError c) | Some x \<Rightarrow> Inr x)"

definition largo :: "columna \<Rightarrow> nat" where
  "largo c = (case c of Texto xs \<Rightarrow> length xs | Numerica xs \<Rightarrow> length xs)"

text \<open>The number of rows, and \<^verbatim>\<open>df.empty\<close>: no column or no row.\<close>

definition n_filas :: "frame \<Rightarrow> nat" where
  "n_filas df = (case df of [] \<Rightarrow> 0 | (_, c) # _ \<Rightarrow> largo c)"

definition empty_df :: "frame \<Rightarrow> bool" where
  "empty_df df = (n_filas df = 0)"

text \<open>Indexing by a boolean mask, \<^verbatim>\<open>df[mask]\<close>: the rows where the mask is true.\<close>

definition tomar :: "bool list \<Rightarrow> 'a list \<Rightarrow> 'a list" where
  "tomar m xs = map snd (filter fst (zip m xs))"

definition tomar_col :: "bool list \<Rightarrow> columna \<Rightarrow> columna" where
  "tomar_col m c = (case c of Texto xs \<Rightarrow> Texto (tomar m xs) | Numerica xs \<Rightarrow> Numerica (tomar m xs))"

definition filas_donde :: "bool list \<Rightarrow> frame \<Rightarrow> frame" where
  "filas_donde m df = map (\<lambda>(n, c). (n, tomar_col m c)) df"

text \<open>
  \<^verbatim>\<open>pd.DataFrame(columns=df.columns)\<close>: the same labels, no rows; every column of the new
  frame has dtype \<^verbatim>\<open>object\<close>.
\<close>

definition sin_filas :: "frame \<Rightarrow> frame" where
  "sin_filas df = map (\<lambda>(n, c). (n, Texto [])) df"

text \<open>The cells of a column as Python values.\<close>

definition valor_txt :: "string option \<Rightarrow> valor" where
  "valor_txt x = (case x of None \<Rightarrow> NaN | Some s \<Rightarrow> Txt s)"

definition valor_num :: "rat option \<Rightarrow> valor" where
  "valor_num x = (case x of None \<Rightarrow> NaN | Some r \<Rightarrow> Num r)"

definition valores :: "columna \<Rightarrow> valor list" where
  "valores c = (case c of Texto xs \<Rightarrow> map valor_txt xs | Numerica xs \<Rightarrow> map valor_num xs)"

text \<open>
  \<^verbatim>\<open>s.isin(sel)\<close> and \<^verbatim>\<open>s == v\<close>, cell by cell. \<^verbatim>\<open>isin\<close> finds a missing cell when the
  selection holds \<^verbatim>\<open>NaN\<close>; \<^verbatim>\<open>==\<close> is false on every missing cell.
\<close>

definition isin :: "columna \<Rightarrow> valor list \<Rightarrow> bool list" where
  "isin c sel = map (\<lambda>v. v \<in> set sel) (valores c)"

definition igual :: "columna \<Rightarrow> valor \<Rightarrow> bool list" where
  "igual c v = map (\<lambda>x. x \<noteq> NaN \<and> x = v) (valores c)"

text \<open>\<^verbatim>\<open>s.unique()\<close>: the distinct cells in order of first appearance, a missing cell included.\<close>

definition unique :: "'a list \<Rightarrow> 'a list" where
  "unique xs = rev (remdups (rev xs))"

text \<open>
  \<^verbatim>\<open>sorted(s.unique())\<close>. Python cannot compare a string with the float \<^verbatim>\<open>NaN\<close>, so a text
  column that holds both text and a missing cell raises \<^verbatim>\<open>TypeError\<close>. Among numbers the
  place of a \<^verbatim>\<open>NaN\<close> is left to the sorting algorithm; here it comes first.
\<close>

definition sorted_unique :: "columna \<Rightarrow> error + valor list" where
  "sorted_unique c = (case c of
       Texto xs \<Rightarrow>
         if None \<in> set xs \<and> list_ex (\<lambda>x. x \<noteq> None) xs then Inl Inesperado
         else Inr (map valor_txt (sort (unique xs)))
     | Numerica xs \<Rightarrow> Inr (map valor_num (sort (unique xs))))"

text \<open>
  \<^verbatim>\<open>s.sum()\<close> read as a number by \<^verbatim>\<open>float(...)\<close> or \<^verbatim>\<open>int(...)\<close>. Missing cells are skipped
  and the empty sum is 0. The sum of a text column is the concatenation of its strings,
  which \<^verbatim>\<open>float\<close> and \<^verbatim>\<open>int\<close> reject (a text that happens to spell a numeral apart).
\<close>

definition presentes :: "'a option list \<Rightarrow> 'a list" where
  "presentes xs = map the (filter (\<lambda>x. x \<noteq> None) xs)"

definition sum_col :: "columna \<Rightarrow> error + rat" where
  "sum_col c = (case c of
       Numerica xs \<Rightarrow> Inr (sum_list (presentes xs))
     | Texto xs \<Rightarrow> if presentes xs = [] then Inr 0 else Inl Inesperado)"

text \<open>Python's \<^verbatim>\<open>int(x)\<close> drops the fraction, towards zero.\<close>

definition int_py :: "rat \<Rightarrow> int" where
  "int_py x = (if 0 \<le> x then \<lfloor>x\<rfloor> else \<lceil>x\<rceil>)"

section \<open>Loader\<close>

text \<open>
  \<^verbatim>\<open>df['NOMBRE'] + ' ' + df['APELLIDO']\<close>: on two text columns the names are joined row by
  row and a missing name makes the joined name missing; a numeric column cannot be added
  to a string, the \<^verbatim>\<open>TypeError\<close> is caught by \<^verbatim>\<open>except Exception\<close>.
\<close>

definition unir :: "string option \<Rightarrow> string option \<Rightarrow> string option" where
  "unir a b = (case (a, b) of (Some x, Some y) \<Rightarrow> Some (x @ '' '' @ y) | _ \<Rightarrow> None)"

definition nombre_completo :: "columna \<Rightarrow> columna \<Rightarrow> error + columna" where
  "nombre_completo a b = (case (a, b) of
       (Texto xs, Texto ys) \<Rightarrow> Inr (Texto (map2 unir xs ys))
     | _ \<Rightarrow> Inl LoadError)"

text \<open>
  \<^verbatim>\<open>load_data\<close>, lines 17 to 38. Every \<open>Inl\<close> is a message on the page and the return value
  \<^verbatim>\<open>None\<close>; \<open>Inr\<close> is the frame with the column \<^verbatim>\<open>Vendedor\<close> set (replaced in place when the
  file already has one, appended otherwise).
\<close>

definition load_data :: "lectura \<Rightarrow> error + frame" where
  "load_data file = (case file of
       NoEncontrado \<Rightarrow> Inl FileNotFound
     | Ilegible \<Rightarrow> Inl LoadError
     | Leido df \<Rightarrow>
         (case (map_of df ''NOMBRE'', map_of df ''APELLIDO'') of
            (Some a, Some b) \<Rightarrow>
              (case nombre_completo a b of
                 Inl e \<Rightarrow> Inl e
               | Inr v \<Rightarrow> Inr (AList.update COLUMNA_VENDEDOR v df))
          | _ \<Rightarrow> Inl SchemaError))"

section \<open>Filter stage\<close>

text \<open>
  Lines 59 to 79. The options of the region selector are computed first, and that can
  fail; the selection itself is the user's, an input here. \<open>Inl\<close> is the message followed
  by \<^verbatim>\<open>st.stop()\<close>.
\<close>

definition regiones_disponibles :: "frame \<Rightarrow> error + valor list" where
  "regiones_disponibles df_ventas = (case col df_ventas COLUMNA_REGION of
       Inl e \<Rightarrow> Inl e
     | Inr c \<Rightarrow> sorted_unique c)"

definition df_filtrado :: "frame \<Rightarrow> valor list \<Rightarrow> error + frame" where
  "df_filtrado df_ventas region_seleccionada = (case regiones_disponibles df_ventas of
       Inl e \<Rightarrow> Inl e
     | Inr opciones \<Rightarrow>
         if region_seleccionada = [] then Inr (sin_filas df_ventas)
         else (case col df_ventas COLUMNA_REGION of
                 Inl e \<Rightarrow> Inl e
               | Inr c \<Rightarrow> Inr (filas_donde (isin c region_seleccionada) df_ventas)))"

section \<open>Reporter: summary totals\<close>

text \<open>Lines 91 and 92: \<^verbatim>\<open>float(df[VENTAS].sum())\<close> and \<^verbatim>\<open>int(df[UNIDADES].sum())\<close>.\<close>

definition total_ventas :: "frame \<Rightarrow> error + rat" where
  "total_ventas df = (case col df COLUMNA_VENTAS of Inl e \<Rightarrow> Inl e | Inr c \<Rightarrow> sum_col c)"

definition total_unidades :: "frame \<Rightarrow> error + int" where
  "total_unidades df = (case col df COLUMNA_UNIDADES of
       Inl e \<Rightarrow> Inl e
     | Inr c \<Rightarrow> (case sum_col c of Inl e \<Rightarrow> Inl e | Inr s \<Rightarrow> Inr (int_py s)))"

section \<open>Aggregator\<close>

text \<open>
  \<^verbatim>\<open>df.groupby(k)\<close> with its defaults: one group for each distinct key that is present,
  the groups in ascending order of the key; a row whose key is missing is in no group.
\<close>

definition claves :: "columna \<Rightarrow> columna" where
  "claves k = (case k of
       Texto ks \<Rightarrow> Texto (map Some (sort (remdups (presentes ks))))
     | Numerica ks \<Rightarrow> Numerica (map Some (sort (remdups (presentes ks)))))"

fun todos :: "(error + 'a) list \<Rightarrow> error + 'a list" where
  "todos [] = Inr []"
| "todos (x # xs) = (case x of
       Inl e \<Rightarrow> Inl e
     | Inr a \<Rightarrow> (case todos xs of Inl e \<Rightarrow> Inl e | Inr as \<Rightarrow> Inr (a # as)))"

text \<open>The \<^verbatim>\<open>'sum'\<close> of a column within each group, in the order of the groups.\<close>

definition sumas :: "columna \<Rightarrow> columna \<Rightarrow> error + rat list" where
  "sumas k c = todos (map (\<lambda>g. sum_col (tomar_col (igual k g) c)) (valores (claves k)))"

text \<open>
  Lines 105 to 108: \<^verbatim>\<open>groupby(Vendedor).agg({UNIDADES: 'sum', VENTAS: 'sum'}).reset_index()\<close>.
\<close>

definition agrupar :: "frame \<Rightarrow> error + frame" where
  "agrupar df = (case col df COLUMNA_VENDEDOR of
       Inl e \<Rightarrow> Inl e
     | Inr k \<Rightarrow> (case col df COLUMNA_UNIDADES of
         Inl e \<Rightarrow> Inl e
       | Inr u \<Rightarrow> (case col df COLUMNA_VENTAS of
           Inl e \<Rightarrow> Inl e
         | Inr v \<Rightarrow> (case sumas k u of
             Inl e \<Rightarrow> Inl e
           | Inr us \<Rightarrow> (case sumas k v of
               Inl e \<Rightarrow> Inl e
             | Inr vs \<Rightarrow> Inr [(COLUMNA_VENDEDOR, claves k),
                              (COLUMNA_UNIDADES, Numerica (map Some us)),
                              (COLUMNA_VENTAS, Numerica (map Some vs))])))))"

text \<open>
  A numeric column divided by a number. Dividing by zero does not raise in pandas: the
  cell becomes \<^verbatim>\<open>inf\<close> or \<^verbatim>\<open>NaN\<close>, no number, which is \<open>None\<close> here.
\<close>

definition dividir :: "rat option list \<Rightarrow> rat \<Rightarrow> rat option list" where
  "dividir xs t = map (\<lambda>x. case x of None \<Rightarrow> None | Some a \<Rightarrow> if t = 0 then None else Some (a / t)) xs"

text \<open>
  Lines 105 to 115: the aggregate rows with their share of the total, the column
  \<^verbatim>\<open>Porcentaje Ventas\<close>.
\<close>

definition df_agrupado :: "frame \<Rightarrow> error + frame" where
  "df_agrupado df = (case agrupar df of
       Inl e \<Rightarrow> Inl e
     | Inr g \<Rightarrow> (case col g COLUMNA_VENTAS of
         Inl e \<Rightarrow> Inl e
       | Inr v \<Rightarrow> (case sum_col v of
           Inl e \<Rightarrow> Inl e
         | Inr total_ventas_filtrado \<Rightarrow>
             if total_ventas_filtrado > 0 then
               (case v of
                  Numerica xs \<Rightarrow>
                    Inr (AList.update ''Porcentaje Ventas''
                           (Numerica (dividir xs total_ventas_filtrado)) g)
                | Texto xs \<Rightarrow> Inl Inesperado)
             else
               Inr (AList.update ''Porcentaje Ventas''
                      (Numerica (replicate (n_filas g) (Some 0))) g))))"

text \<open>The sale amounts and the shares of the aggregate rows, read back from the frame.\<close>

definition numeros :: "frame \<Rightarrow> string \<Rightarrow> rat option list" where
  "numeros g c = (case map_of g c of Some (Numerica xs) \<Rightarrow> xs | _ \<Rightarrow> [])"

definition ventas_agrupadas :: "frame \<Rightarrow> rat option list" where
  "ventas_agrupadas g = numeros g COLUMNA_VENTAS"

definition porcentajes :: "frame \<Rightarrow> rat option list" where
  "porcentajes g = numeros g ''Porcentaje Ventas''"

section \<open>Reporter: the detail of one salesperson\<close>

text \<open>
  \<^verbatim>\<open>", ".join(s.unique())\<close>: \<^verbatim>\<open>str.join\<close> takes strings only, so a missing cell or a
  number raises \<^verbatim>\<open>TypeError\<close>; the join of nothing is the empty string.
\<close>

fun join :: "string \<Rightarrow> string list \<Rightarrow> string" where
  "join sep [] = []"
| "join sep [x] = x"
| "join sep (x # y # ys) = x @ sep @ join sep (y # ys)"

definition join_unique :: "columna \<Rightarrow> error + string" where
  "join_unique c = (case c of
       Texto xs \<Rightarrow> if None \<in> set xs then Inl Inesperado else Inr (join '', '' (presentes (unique xs)))
     | Numerica xs \<Rightarrow> if xs = [] then Inr [] else Inl Inesperado)"

record detalle =
  kpi_v_ventas :: rat
  kpi_v_unidades :: int
  kpi_v_region :: string
  tabla :: frame

definition columnas_a_mostrar :: "frame \<Rightarrow> string list" where
  "columnas_a_mostrar df =
     filter (\<lambda>c. c \<notin> set [''NOMBRE'', ''APELLIDO'', ''Vendedor'']) (map fst df)"

text \<open>\<^verbatim>\<open>df[cols]\<close>, the columns of the list \<open>cols\<close>, for labels that the frame has.\<close>

definition solo_columnas :: "string list \<Rightarrow> frame \<Rightarrow> frame" where
  "solo_columnas cols df = filter (\<lambda>(n, c). n \<in> set cols) df"

text \<open>Lines 171 to 184.\<close>

definition df_vendedor :: "frame \<Rightarrow> valor \<Rightarrow> error + frame" where
  "df_vendedor df vendedor_seleccionado = (case col df COLUMNA_VENDEDOR of
       Inl e \<Rightarrow> Inl e
     | Inr k \<Rightarrow> Inr (filas_donde (igual k vendedor_seleccionado) df))"

definition detalle_vendedor :: "frame \<Rightarrow> valor \<Rightarrow> error + detalle" where
  "detalle_vendedor df vendedor_seleccionado = (case df_vendedor df vendedor_seleccionado of
       Inl e \<Rightarrow> Inl e
     | Inr dv \<Rightarrow> (case total_ventas dv of
         Inl e \<Rightarrow> Inl e
       | Inr kv \<Rightarrow> (case total_unidades dv of
           Inl e \<Rightarrow> Inl e
         | Inr ku \<Rightarrow> (case col dv COLUMNA_REGION of
             Inl e \<Rightarrow> Inl e
           | Inr r \<Rightarrow> (case join_unique r of
               Inl e \<Rightarrow> Inl e
             | Inr kr \<Rightarrow> Inr \<lparr>kpi_v_ventas = kv, kpi_v_unidades = ku, kpi_v_region = kr,
                               tabla = solo_columnas (columnas_a_mostrar dv) dv\<rparr>)))))"

section \<open>The page\<close>

text \<open>
  The body, lines 87 to 196, shows its sections one after the other inside one
  \<^verbatim>\<open>try\<close>: an exception ends the body and leaves on the page what was shown before it.
  The result is the list of sections shown and the exception that ended the body, if any.
  The salesperson picked in the selector is an input; nothing is picked (\<open>None\<close>) when
  the selector has no option.
\<close>

datatype seccion =
    KPIs rat int          \<comment> \<open>total sales and total units\<close>
  | Graficas frame        \<comment> \<open>the aggregate rows behind the three charts\<close>
  | Detalle detalle
  | Completos frame       \<comment> \<open>the table under "Datos Completos"\<close>

text \<open>Python's truth value of the picked option, \<^verbatim>\<open>if vendedor_seleccionado:\<close>.\<close>

definition truthy :: "valor option \<Rightarrow> bool" where
  "truthy v = (case v of
       None \<Rightarrow> False
     | Some (Txt s) \<Rightarrow> s \<noteq> []
     | Some (Num r) \<Rightarrow> r \<noteq> 0
     | Some NaN \<Rightarrow> True)"

definition vendedores_disponibles :: "frame \<Rightarrow> error + valor list" where
  "vendedores_disponibles df = (case col df COLUMNA_VENDEDOR of
       Inl e \<Rightarrow> Inl e
     | Inr c \<Rightarrow> sorted_unique c)"

definition cuerpo :: "frame \<Rightarrow> valor option \<Rightarrow> seccion list \<times> error option" where
  "cuerpo df vendedor_seleccionado = (case total_ventas df of
       Inl e \<Rightarrow> ([], Some e)
     | Inr tv \<Rightarrow> (case total_unidades df of
         Inl e \<Rightarrow> ([], Some e)
       | Inr tu \<Rightarrow> (case df_agrupado df of
           Inl e \<Rightarrow> ([KPIs tv tu], Some e)
         | Inr g \<Rightarrow> (case vendedores_disponibles df of
             Inl e \<Rightarrow> ([KPIs tv tu, Graficas g], Some e)
           | Inr opciones \<Rightarrow>
               if truthy vendedor_seleccionado then
                 (case detalle_vendedor df (the vendedor_seleccionado) of
                    Inl e \<Rightarrow> ([KPIs tv tu, Graficas g], Some e)
                  | Inr d \<Rightarrow> ([KPIs tv tu, Graficas g, Detalle d, Completos df], None))
               else ([KPIs tv tu, Graficas g, Completos df], None)))))"

text \<open>
  The whole script: load, stop on a failed load; filter, stop on a failed filter; a
  warning instead of the body when the filtered table is empty.
\<close>

datatype pagina =
    Detenido error
  | Aviso
  | Panel "seccion list" "error option"

definition dashboard :: "lectura \<Rightarrow> valor list \<Rightarrow> valor option \<Rightarrow> pagina" where
  "dashboard file region_seleccionada vendedor_seleccionado = (case load_data file of
       Inl e \<Rightarrow> Detenido e
     | Inr df_ventas \<Rightarrow> (case df_filtrado df_ventas region_seleccionada of
         Inl e \<Rightarrow> Detenido e
       | Inr df \<Rightarrow>
           if empty_df df then Aviso
           else (case cuerpo df vendedor_seleccionado of (ss, e) \<Rightarrow> Panel ss e)))"

text \<open>The table shown under "Datos Completos", if the body got that far.\<close>

fun datos_completos :: "seccion list \<Rightarrow> frame option" where
  "datos_completos [] = None"
| "datos_completos (Completos f # ss) = Some f"
| "datos_completos (s # ss) = datos_completos ss"

section \<open>Quantities the properties speak of\<close>

text \<open>The grand total of the aggregate rows: the sum of their sale amounts.\<close>

definition total_agrupado :: "frame \<Rightarrow> rat" where
  "total_agrupado g = sum_list (presentes (ventas_agrupadas g))"

text \<open>The sale amounts of the rows whose salesperson is present, summed.\<close>

definition ventas_con_nombre :: "columna \<Rightarrow> rat option list \<Rightarrow> rat" where
  "ventas_con_nombre k vs = sum_list (presentes (tomar (map (\<lambda>x. x \<noteq> NaN) (valores k)) vs))"

definition o_cero :: "rat option \<Rightarrow> rat" where
  "o_cero x = (case x of None \<Rightarrow> 0 | Some a \<Rightarrow> a)"

text \<open>A key column in strictly ascending order, no key missing.\<close>

definition ascendente :: "columna \<Rightarrow> bool" where
  "ascendente c = (case c of
       Texto ks \<Rightarrow> None \<notin> set ks \<and> sorted_wrt (<) (presentes ks)
     | Numerica ks \<Rightarrow> None \<notin> set ks \<and> sorted_wrt (<) (presentes ks))"

text \<open>
  The full-table projection in the words of the specification: the table without the
  first-name column, the last-name column and the derived entity-name column.
\<close>

definition proyeccion_spec :: "frame \<Rightarrow> frame" where
  "proyeccion_spec df = filter (\<lambda>(n, c). n \<notin> set [''NOMBRE'', ''APELLIDO'', ''Vendedor'']) df"

subsection \<open>Sample files\<close>

text \<open>The two records of the specification's example, as read from the file and as loaded.\<close>

definition ventas_csv :: frame where
  "ventas_csv = [(''NOMBRE'', Texto [Some ''Ana'', Some ''Luis'']),
                 (''APELLIDO'', Texto [Some ''Garcia'', Some ''Perez'']),
                 (''REGION'', Texto [Some ''East'', Some ''West'']),
                 (''VENTAS TOTALES'', Numerica [Some 100, Some 50]),
                 (''UNIDADES VENDIDAS'', Numerica [Some 2, Some 1])]"

definition ventas_ejemplo :: frame where
  "ventas_ejemplo =
     ventas_csv @ [(''Vendedor'', Texto [Some ''Ana Garcia'', Some ''Luis Perez''])]"

definition agrupado_ejemplo :: frame where
  "agrupado_ejemplo = [(''Vendedor'', Texto [Some ''Ana Garcia'', Some ''Luis Perez'']),
                       (''UNIDADES VENDIDAS'', Numerica [Some 2, Some 1]),
                       (''VENTAS TOTALES'', Numerica [Some 100, Some 50]),
                       (''Porcentaje Ventas'', Numerica [Some (2 / 3), Some (1 / 3)])]"

text \<open>A file without the last-name column.\<close>

definition sin_apellido_csv :: frame where
  "sin_apellido_csv = [(''NOMBRE'', Texto [Some ''Ana'']),
                       (''REGION'', Texto [Some ''East'']),
                       (''VENTAS TOTALES'', Numerica [Some 100]),
                       (''UNIDADES VENDIDAS'', Numerica [Some 2])]"

text \<open>The same two records, the first name of the second one left blank in the file.\<close>

definition sin_nombre_csv :: frame where
  "sin_nombre_csv = [(''NOMBRE'', Texto [Some ''Ana'', None]),
                     (''APELLIDO'', Texto [Some ''Garcia'', Some ''Perez'']),
                     (''REGION'', Texto [Some ''East'', Some ''West'']),
                     (''VENTAS TOTALES'', Numerica [Some 100, Some 50]),
                     (''UNIDADES VENDIDAS'', Numerica [Some 2, Some 1])]"

text \<open>A loaded table of one record that sold two units for nothing.\<close>

definition ventas_cero :: frame where
  "ventas_cero = [(''NOMBRE'', Texto [Some ''Ana'']),
                  (''APELLIDO'', Texto [Some ''Garcia'']),
                  (''REGION'', Texto [Some ''East'']),
                  (''VENTAS TOTALES'', Numerica [Some 0]),
                  (''UNIDADES VENDIDAS'', Numerica [Some 2]),
                  (''Vendedor'', Texto [Some ''Ana Garcia''])]"

definition agrupado_cero :: frame where
  "agrupado_cero = [(''Vendedor'', Texto [Some ''Ana Garcia'']),
                    (''UNIDADES VENDIDAS'', Numerica [Some 2]),
                    (''VENTAS TOTALES'', Numerica [Some 0]),
                    (''Porcentaje Ventas'', Numerica [Some 0])]"

text \<open>
  A loaded table where returns outweigh sales; its records are not in the order of the
  names.
\<close>

definition devoluciones :: frame where
  "devoluciones = [(''NOMBRE'', Texto [Some ''Luis'', Some ''Ana'', Some ''Luis'']),
                   (''APELLIDO'', Texto [Some ''Perez'', Some ''Garcia'', Some ''Perez'']),
                   (''REGION'', Texto [Some ''West'', Some ''East'', Some ''East'']),
                   (''VENTAS TOTALES'', Numerica [Some 50, Some 100, Some (- 300)]),
                   (''UNIDADES VENDIDAS'', Numerica [Some 1, Some 2, Some (- 6)]),
                   (''Vendedor'', Texto [Some ''Luis Perez'', Some ''Ana Garcia'',
                                          Some ''Luis Perez''])]"

definition agrupado_devoluciones :: frame where
  "agrupado_devoluciones = [(''Vendedor'', Texto [Some ''Ana Garcia'', Some ''Luis Perez'']),
                            (''UNIDADES VENDIDAS'', Numerica [Some 2, Some (- 5)]),
                            (''VENTAS TOTALES'', Numerica [Some 100, Some (- 250)]),
                            (''Porcentaje Ventas'', Numerica [Some 0, Some 0])]"

section \<open>Facts about the data frame operations\<close>

lemma tomar_simps [simp]:
  "tomar [] xs = []"
  "tomar m [] = []"
  "tomar (b # m) (x # xs) = (if b then x # tomar m xs else tomar m xs)"
  by (simp_all add: tomar_def)

lemma map_tomar: "map f (tomar m xs) = tomar m (map f xs)"
proof (induction m arbitrary: xs)
  case Nil
  then show ?case by simp
next
  case (Cons b m)
  then show ?case by (cases xs) simp_all
qed

lemma set_tomar: "set (tomar m xs) \<subseteq> set xs"
  unfolding tomar_def by (auto dest: set_zip_rightD)

text \<open>Selecting with a mask and then with what the mask keeps of itself changes nothing.\<close>

lemma tomar_tomar: "tomar (tomar m m) (tomar m xs) = tomar m xs"
proof (induction m arbitrary: xs)
  case Nil
  then show ?case by simp
next
  case (Cons b m)
  then show ?case by (cases xs) simp_all
qed

lemma tomar_falso: "True \<notin> set m \<Longrightarrow> tomar m xs = []"
proof (induction m arbitrary: xs)
  case Nil
  then show ?case by simp
next
  case (Cons b m)
  then show ?case by (cases xs) auto
qed

lemma tomar_todos: "length m = length xs \<Longrightarrow> False \<notin> set m \<Longrightarrow> tomar m xs = xs"
  by (induction m xs rule: list_induct2) auto

lemma valores_tomar_col: "valores (tomar_col m c) = tomar m (valores c)"
  by (cases c) (simp_all add: valores_def tomar_col_def map_tomar)

lemma isin_tomar_col: "isin (tomar_col m c) sel = tomar m (isin c sel)"
  by (simp add: isin_def valores_tomar_col map_tomar)

lemma tomar_col_tomar_col: "tomar_col (tomar m m) (tomar_col m c) = tomar_col m c"
  by (cases c) (simp_all add: tomar_col_def tomar_tomar)

lemma length_valores: "length (valores k) = largo k"
  by (cases k) (simp_all add: valores_def largo_def)

lemma map_of_filas_donde: "map_of (filas_donde m df) c = map_option (tomar_col m) (map_of df c)"
  by (simp add: filas_donde_def map_of_map)

lemma map_of_sin_filas: "map_of (sin_filas df) c = map_option (\<lambda>_. Texto []) (map_of df c)"
  by (simp add: sin_filas_def map_of_map)

lemma col_filas_donde:
  "col df c = Inr x \<Longrightarrow> col (filas_donde m df) c = Inr (tomar_col m x)"
  by (auto simp: col_def map_of_filas_donde split: option.splits)

lemma col_sin_filas: "col df c = Inr x \<Longrightarrow> col (sin_filas df) c = Inr (Texto [])"
  by (auto simp: col_def map_of_sin_filas split: option.splits)

lemma sin_filas_idem: "sin_filas (sin_filas df) = sin_filas df"
  by (induction df) (auto simp: sin_filas_def)

lemma filas_donde_idem: "filas_donde (tomar m m) (filas_donde m df) = filas_donde m df"
  by (induction df) (auto simp: filas_donde_def tomar_col_tomar_col)

lemma filas_donde_falso: "True \<notin> set m \<Longrightarrow> filas_donde m df = filas_donde [] df"
  by (induction df) (auto simp: filas_donde_def tomar_col_def tomar_falso split: columna.splits)

lemma map_fst_filas_donde: "map fst (filas_donde m df) = map fst df"
  by (induction df) (auto simp: filas_donde_def)

lemma n_filas_vacia: "n_filas (filas_donde [] df) = 0"
  by (cases df)
     (auto simp: n_filas_def filas_donde_def tomar_col_def largo_def split: columna.splits)

lemma sum_col_vacia: "sum_col (tomar_col [] c) = Inr 0"
  by (cases c) (simp_all add: sum_col_def tomar_col_def presentes_def)

lemma join_unique_vacia: "join_unique (tomar_col [] c) = Inr []"
  by (cases c) (simp_all add: join_unique_def tomar_col_def presentes_def unique_def)

text \<open>The options of a selector can still be listed after rows have been dropped.\<close>

lemma sorted_unique_tomar_col:
  assumes "sorted_unique c = Inr ops"
  shows "\<exists>ops'. sorted_unique (tomar_col m c) = Inr ops'"
proof (cases c)
  case (Texto xs)
  have s: "set (tomar m xs) \<subseteq> set xs" by (rule set_tomar)
  from assms Texto have "\<not> (None \<in> set xs \<and> list_ex (\<lambda>x. x \<noteq> None) xs)"
    by (auto simp: sorted_unique_def split: if_splits)
  with s have "\<not> (None \<in> set (tomar m xs) \<and> list_ex (\<lambda>x. x \<noteq> None) (tomar m xs))"
    unfolding list_ex_iff by blast
  with Texto show ?thesis by (simp add: sorted_unique_def tomar_col_def)
next
  case (Numerica xs)
  then show ?thesis by (simp add: sorted_unique_def tomar_col_def)
qed

lemma presentes_map_Some [simp]: "presentes (map Some xs) = xs"
  by (induction xs) (simp_all add: presentes_def)

lemma presentes_replicate [simp]: "presentes (replicate n (Some x)) = replicate n x"
  by (induction n) (simp_all add: presentes_def)

lemma set_presentes: "set (presentes xs) = {x. Some x \<in> set xs}"
  by (induction xs) (auto simp: presentes_def)

lemma sum_presentes: "sum_list (presentes xs) = sum_list (map o_cero xs)"
  by (induction xs) (auto simp: presentes_def o_cero_def)

lemma sum_list_dividir: "sum_list (map (\<lambda>a. a / t) xs) = sum_list xs / (t::rat)"
  by (induction xs) (simp_all add: add_divide_distrib)

lemma dividir_map_Some: "t \<noteq> 0 \<Longrightarrow> dividir (map Some xs) t = map (\<lambda>a. Some (a / t)) xs"
  by (simp add: dividir_def)

section \<open>Facts about the aggregation\<close>

lemma todos_map_Inr: "todos (map (\<lambda>x. Inr (f x)) xs) = Inr (map f xs)"
  by (induction xs) simp_all

lemma todos_length: "todos xs = Inr ys \<Longrightarrow> length ys = length xs"
  by (induction xs arbitrary: ys) (auto split: sum.splits)

lemma sumas_length: "sumas k c = Inr xs \<Longrightarrow> length xs = largo (claves k)"
  by (cases k) (auto simp: sumas_def valores_def largo_def claves_def dest!: todos_length)

lemma sumas_numerica:
  "sumas k (Numerica vs) =
     Inr (map (\<lambda>g. sum_list (presentes (tomar (igual k g) vs))) (valores (claves k)))"
  by (simp add: sumas_def sum_col_def tomar_col_def todos_map_Inr)

text \<open>The groups: each key that is present, once.\<close>

lemma valores_claves:
  "distinct (valores (claves k)) \<and> set (valores (claves k)) = set (valores k) - {NaN}"
proof (cases k)
  case (Texto ks)
  have "valores (claves k) = map Txt (sort (remdups (presentes ks)))"
    by (simp add: Texto claves_def valores_def valor_txt_def comp_def)
  moreover have "set (valores k) - {NaN} = Txt ` {x. Some x \<in> set ks}"
    by (auto simp: Texto valores_def valor_txt_def image_iff split: option.splits; blast)
  ultimately show ?thesis
    by (simp add: distinct_map set_presentes inj_on_def)
next
  case (Numerica ks)
  have "valores (claves k) = map Num (sort (remdups (presentes ks)))"
    by (simp add: Numerica claves_def valores_def valor_num_def comp_def)
  moreover have "set (valores k) - {NaN} = Num ` {x. Some x \<in> set ks}"
    by (auto simp: Numerica valores_def valor_num_def image_iff split: option.splits; blast)
  ultimately show ?thesis
    by (simp add: distinct_map set_presentes inj_on_def)
qed

lemma igual_clave:
  "g \<in> set (valores (claves k)) \<Longrightarrow> igual k g = map (\<lambda>x. x = g) (valores k)"
  using valores_claves [of k] by (auto simp: igual_def)

lemma ascendente_claves: "ascendente (claves k)"
  by (cases k) (auto simp: ascendente_def claves_def strict_sorted_iff)

text \<open>The frame that the aggregation returns.\<close>

lemma agrupar_forma:
  assumes "agrupar df = Inr a"
  obtains k u v us vs where
    "col df COLUMNA_VENDEDOR = Inr k" "col df COLUMNA_UNIDADES = Inr u"
    "col df COLUMNA_VENTAS = Inr v" "sumas k u = Inr us" "sumas k v = Inr vs"
    "a = [(COLUMNA_VENDEDOR, claves k), (COLUMNA_UNIDADES, Numerica (map Some us)),
          (COLUMNA_VENTAS, Numerica (map Some vs))]"
  using assms unfolding agrupar_def by (auto split: sum.splits)

lemma df_agrupado_forma:
  assumes "df_agrupado df = Inr g"
  obtains k u v us vs where
    "col df COLUMNA_VENDEDOR = Inr k" "col df COLUMNA_UNIDADES = Inr u"
    "col df COLUMNA_VENTAS = Inr v" "sumas k u = Inr us" "sumas k v = Inr vs"
    "g = [(COLUMNA_VENDEDOR, claves k), (COLUMNA_UNIDADES, Numerica (map Some us)),
          (COLUMNA_VENTAS, Numerica (map Some vs)),
          (''Porcentaje Ventas'',
             Numerica (if 0 < sum_list vs then map (\<lambda>a. Some (a / sum_list vs)) vs
                       else replicate (length vs) (Some 0)))]"
proof -
  from assms obtain a where a: "agrupar df = Inr a"
    by (auto simp: df_agrupado_def split: sum.splits)
  from a obtain k u v us vs where
    h: "col df COLUMNA_VENDEDOR = Inr k" "col df COLUMNA_UNIDADES = Inr u"
    "col df COLUMNA_VENTAS = Inr v" "sumas k u = Inr us" "sumas k v = Inr vs"
    and af: "a = [(COLUMNA_VENDEDOR, claves k), (COLUMNA_UNIDADES, Numerica (map Some us)),
          (COLUMNA_VENTAS, Numerica (map Some vs))]"
    by (rule agrupar_forma)
  have n: "n_filas a = length vs"
    using sumas_length [OF h(5)] by (simp add: af n_filas_def)
  have "g = [(COLUMNA_VENDEDOR, claves k), (COLUMNA_UNIDADES, Numerica (map Some us)),
          (COLUMNA_VENTAS, Numerica (map Some vs)),
          (''Porcentaje Ventas'',
             Numerica (if 0 < sum_list vs then map (\<lambda>a. Some (a / sum_list vs)) vs
                       else replicate (length vs) (Some 0)))]"
    using assms a n
    by (auto simp: df_agrupado_def af col_def sum_col_def dividir_map_Some
        COLUMNA_VENDEDOR_def COLUMNA_UNIDADES_def COLUMNA_VENTAS_def n_filas_def
        split: if_splits)
  with h show ?thesis by (rule that)
qed

text \<open>
  Summing group by group reaches every row whose key is present, once: the sum of the
  group sums is the sum over those rows.
\<close>

lemma suma_un_grupo:
  "distinct gs \<Longrightarrow>
     sum_list (map (\<lambda>g. if k = g then w else 0) gs) = (if k \<in> set gs then (w::rat) else 0)"
  by (induction gs) auto

lemma suma_grupos:
  fixes ws :: "rat list"
  assumes "length ks = length ws" and "distinct gs"
  shows "sum_list (map (\<lambda>g. sum_list (tomar (map (\<lambda>x. x = g) ks) ws)) gs)
       = sum_list (tomar (map (\<lambda>x. x \<in> set gs) ks) ws)"
  using assms
proof (induction ks ws rule: list_induct2)
  case Nil
  then show ?case by simp
next
  case (Cons k ks w ws)
  have "sum_list (map (\<lambda>g. sum_list (tomar (map (\<lambda>x. x = g) (k # ks)) (w # ws))) gs)
      = sum_list (map (\<lambda>g. (if k = g then w else 0)
                            + sum_list (tomar (map (\<lambda>x. x = g) ks) ws)) gs)"
    by (rule arg_cong [where f = sum_list], rule map_cong) auto
  also have "\<dots> = sum_list (map (\<lambda>g. if k = g then w else 0) gs)
                 + sum_list (map (\<lambda>g. sum_list (tomar (map (\<lambda>x. x = g) ks) ws)) gs)"
    by (simp add: sum_list_addf)
  also have "\<dots> = (if k \<in> set gs then w else 0)
                 + sum_list (tomar (map (\<lambda>x. x \<in> set gs) ks) ws)"
    using Cons by (simp add: suma_un_grupo)
  finally show ?case by simp
qed

lemma suma_sumas:
  assumes "largo k = length vs"
  shows "sum_list (map (\<lambda>g. sum_list (presentes (tomar (igual k g) vs))) (valores (claves k)))
       = ventas_con_nombre k vs"
proof -
  let ?gs = "valores (claves k)"
  let ?ws = "map o_cero vs"
  have l: "length (valores k) = length ?ws" using assms by (simp add: length_valores)
  have d: "distinct ?gs" using valores_claves by blast
  have e1: "sum_list (map (\<lambda>g. sum_list (presentes (tomar (igual k g) vs))) ?gs)
      = sum_list (map (\<lambda>g. sum_list (tomar (map (\<lambda>x. x = g) (valores k)) ?ws)) ?gs)"
    by (rule arg_cong [where f = sum_list], rule map_cong)
       (simp_all add: igual_clave sum_presentes map_tomar)
  have e2: "sum_list (map (\<lambda>g. sum_list (tomar (map (\<lambda>x. x = g) (valores k)) ?ws)) ?gs)
      = sum_list (tomar (map (\<lambda>x. x \<in> set ?gs) (valores k)) ?ws)"
    by (rule suma_grupos [OF l d])
  have e3: "map (\<lambda>x. x \<in> set ?gs) (valores k) = map (\<lambda>x. x \<noteq> NaN) (valores k)"
    by (rule map_cong) (use valores_claves [of k] in auto)
  have e4: "ventas_con_nombre k vs
      = sum_list (tomar (map (\<lambda>x. x \<noteq> NaN) (valores k)) ?ws)"
    by (simp add: ventas_con_nombre_def sum_presentes map_tomar)
  show ?thesis by (simp only: e1 e2 e3 e4)
qed

section \<open>The example of the specification\<close>

text \<open>
  The two records Ana Garcia (East, 100, 2 units) and Luis Perez (West, 50, 1 unit), both
  regions selected: total sales 150, total units 3, two aggregate rows with shares 2/3
  and 1/3. With a region that no record has, the page is the warning alone.
\<close>

lemma ejemplo_carga: "load_data (Leido ventas_csv) = Inr ventas_ejemplo"
  by code_simp

lemma ejemplo_dos_regiones:
  "dashboard (Leido ventas_csv) [Txt ''East'', Txt ''West''] (Some (Txt ''Ana Garcia''))
   = Panel [KPIs 150 3,
            Graficas agrupado_ejemplo,
            Detalle \<lparr>kpi_v_ventas = 100, kpi_v_unidades = 2, kpi_v_region = ''East'',
                     tabla = [(''REGION'', Texto [Some ''East'']),
                              (''VENTAS TOTALES'', Numerica [Some 100]),
                              (''UNIDADES VENDIDAS'', Numerica [Some 2])]\<rparr>,
            Completos ventas_ejemplo]
       None"
  by code_simp

lemma ejemplo_region_sin_registros:
  "dashboard (Leido ventas_csv) [Txt ''North''] (Some (Txt ''Ana Garcia'')) = Aviso"
  by code_simp

section \<open>Properties of the loader\<close>

text \<open>
  Claim C4. When the file was read and the first-name column or the last-name column is
  absent, \<^verbatim>\<open>load_data\<close> reports the schema error and returns no table; the script stops
  at once, whatever would have been selected later.
\<close>

theorem load_data_schema_error:
  assumes "''NOMBRE'' \<notin> fst ` set df \<or> ''APELLIDO'' \<notin> fst ` set df"
  shows "load_data (Leido df) = Inl SchemaError
       \<and> dashboard (Leido df) region_seleccionada vendedor_seleccionado = Detenido SchemaError"
proof -
  from assms have "map_of df ''NOMBRE'' = None \<or> map_of df ''APELLIDO'' = None"
    by (simp add: map_of_eq_None_iff)
  then have "load_data (Leido df) = Inl SchemaError"
    by (auto simp: load_data_def split: option.splits)
  then show ?thesis by (simp add: dashboard_def)
qed

theorem load_data_schema_error_witness:
  "''APELLIDO'' \<notin> fst ` set sin_apellido_csv
   \<and> load_data (Leido sin_apellido_csv) = Inl SchemaError
   \<and> dashboard (Leido sin_apellido_csv) [Txt ''East''] None = Detenido SchemaError"
proof -
  have h: "''APELLIDO'' \<notin> fst ` set sin_apellido_csv"
    by (simp add: sin_apellido_csv_def)
  then have "''NOMBRE'' \<notin> fst ` set sin_apellido_csv \<or> ''APELLIDO'' \<notin> fst ` set sin_apellido_csv"
    by simp
  from load_data_schema_error [OF this] h show ?thesis by simp
qed

section \<open>Properties of the filter stage\<close>



text \<open>
  Claim C6. The filter is idempotent: filtering the result of a filter again, with the
  same selection of regions, returns that result unchanged.
\<close>

theorem filtro_idempotente:
  assumes "df_filtrado df_ventas region_seleccionada = Inr d"
  shows "df_filtrado d region_seleccionada = Inr d"
proof -
  from assms obtain ops c where ops: "regiones_disponibles df_ventas = Inr ops"
    and c: "col df_ventas COLUMNA_REGION = Inr c" and so: "sorted_unique c = Inr ops"
    by (auto simp: df_filtrado_def regiones_disponibles_def split: sum.splits)
  show ?thesis
  proof (cases "region_seleccionada = []")
    case True
    with assms ops have d: "d = sin_filas df_ventas" by (simp add: df_filtrado_def)
    have "col d COLUMNA_REGION = Inr (Texto [])" unfolding d using c by (rule col_sin_filas)
    then have "regiones_disponibles d = Inr []"
      by (simp add: regiones_disponibles_def sorted_unique_def unique_def)
    with True show ?thesis by (simp add: df_filtrado_def d sin_filas_idem)
  next
    case False
    with assms ops c have d: "d = filas_donde (isin c region_seleccionada) df_ventas"
      by (simp add: df_filtrado_def)
    have cd: "col d COLUMNA_REGION = Inr (tomar_col (isin c region_seleccionada) c)"
      unfolding d using c by (rule col_filas_donde)
    from sorted_unique_tomar_col [OF so] obtain ops'
      where "sorted_unique (tomar_col (isin c region_seleccionada) c) = Inr ops'" by blast
    with cd have "regiones_disponibles d = Inr ops'" by (simp add: regiones_disponibles_def)
    with False cd show ?thesis
      by (simp add: df_filtrado_def isin_tomar_col d filas_donde_idem)
  qed
qed

theorem filtro_idempotente_witness:
  "df_filtrado ventas_ejemplo [Txt ''East''] = Inr (filas_donde [True, False] ventas_ejemplo)
   \<and> df_filtrado (filas_donde [True, False] ventas_ejemplo) [Txt ''East'']
       = Inr (filas_donde [True, False] ventas_ejemplo)"
proof -
  have h: "df_filtrado ventas_ejemplo [Txt ''East'']
         = Inr (filas_donde [True, False] ventas_ejemplo)"
    by code_simp
  from filtro_idempotente [OF h] h show ?thesis by simp
qed

section \<open>Properties of the aggregator\<close>

text \<open>
  The grand total of the aggregate rows is the total over the records that have a
  salesperson; it is the total of the summary when every record has one.
\<close>

lemma total_agrupado_con_nombre:
  assumes g: "df_agrupado df = Inr g"
    and k: "col df COLUMNA_VENDEDOR = Inr k"
    and v: "col df COLUMNA_VENTAS = Inr (Numerica vs)"
    and l: "largo k = length vs"
  shows "total_agrupado g = ventas_con_nombre k vs"
proof -
  from g obtain k' u v' us vs' where
    h: "col df COLUMNA_VENDEDOR = Inr k'" "col df COLUMNA_VENTAS = Inr v'"
       "sumas k' v' = Inr vs'"
    and gf: "g = [(COLUMNA_VENDEDOR, claves k'), (COLUMNA_UNIDADES, Numerica (map Some us)),
          (COLUMNA_VENTAS, Numerica (map Some vs')),
          (''Porcentaje Ventas'',
             Numerica (if 0 < sum_list vs' then map (\<lambda>a. Some (a / sum_list vs')) vs'
                       else replicate (length vs') (Some 0)))]"
    by (rule df_agrupado_forma)
  from h k v have "sumas k (Numerica vs) = Inr vs'" by simp
  then have vs': "vs' = map (\<lambda>g. sum_list (presentes (tomar (igual k g) vs))) (valores (claves k))"
    by (simp add: sumas_numerica)
  have "total_agrupado g = sum_list vs'"
    by (simp add: gf total_agrupado_def ventas_agrupadas_def numeros_def
        COLUMNA_VENDEDOR_def COLUMNA_UNIDADES_def COLUMNA_VENTAS_def)
  then show ?thesis by (simp only: vs' suma_sumas [OF l])
qed

lemma totales_coinciden:
  assumes g: "df_agrupado df = Inr g"
    and k: "col df COLUMNA_VENDEDOR = Inr k"
    and v: "col df COLUMNA_VENTAS = Inr (Numerica vs)"
    and l: "largo k = length vs"
    and n: "NaN \<notin> set (valores k)"
  shows "total_ventas df = Inr (total_agrupado g)"
proof -
  have "length (map (\<lambda>x. x \<noteq> NaN) (valores k)) = length vs"
    using l by (simp add: length_valores)
  moreover have "False \<notin> set (map (\<lambda>x. x \<noteq> NaN) (valores k))"
    using n by auto
  ultimately have "tomar (map (\<lambda>x. x \<noteq> NaN) (valores k)) vs = vs"
    by (rule tomar_todos)
  then have "ventas_con_nombre k vs = sum_list (presentes vs)"
    by (simp add: ventas_con_nombre_def)
  moreover have "total_ventas df = Inr (sum_list (presentes vs))"
    using v by (simp add: total_ventas_def sum_col_def)
  ultimately show ?thesis
    using total_agrupado_con_nombre [OF g k v l] by simp
qed

text \<open>
  Claim C2 says that the total of the summary equals the sum of the aggregate rows' sale
  amounts. The script breaks it on the file of two records, Ana Garcia (East, 100, 2
  units) and a record with the first name left blank (Perez, West, 50, 1 unit), both
  regions selected: the joined name of the second record is missing, \<^verbatim>\<open>groupby\<close> puts
  the record in no group, and the page shows a total of 150 over aggregate rows that sum
  to 100, before the salesperson selector fails on the missing name.
\<close>

theorem totales_difieren_sin_nombre:
  "dashboard (Leido sin_nombre_csv) [Txt ''East'', Txt ''West''] (Some (Txt ''Ana Garcia''))
   = Panel [KPIs 150 3,
            Graficas [(''Vendedor'', Texto [Some ''Ana Garcia'']),
                      (''UNIDADES VENDIDAS'', Numerica [Some 2]),
                      (''VENTAS TOTALES'', Numerica [Some 100]),
                      (''Porcentaje Ventas'', Numerica [Some 1])]]
       (Some Inesperado)"
  by code_simp




text \<open>
  Claim C9. The aggregate rows come in strictly ascending order of the entity name, one
  row for each name, whatever the order of the records.
\<close>

theorem agrupado_ascendente:
  assumes "df_agrupado df = Inr g"
  shows "\<exists>c. col g COLUMNA_VENDEDOR = Inr c \<and> ascendente c \<and> largo c = n_filas g"
proof -
  from assms obtain k u v us vs where
    g: "g = [(COLUMNA_VENDEDOR, claves k), (COLUMNA_UNIDADES, Numerica (map Some us)),
          (COLUMNA_VENTAS, Numerica (map Some vs)),
          (''Porcentaje Ventas'',
             Numerica (if 0 < sum_list vs then map (\<lambda>a. Some (a / sum_list vs)) vs
                       else replicate (length vs) (Some 0)))]"
    by (rule df_agrupado_forma)
  have "col g COLUMNA_VENDEDOR = Inr (claves k)" by (simp add: g col_def)
  moreover have "largo (claves k) = n_filas g" by (simp add: g n_filas_def)
  ultimately show ?thesis using ascendente_claves by blast
qed

theorem agrupado_ascendente_witness:
  "df_agrupado devoluciones = Inr agrupado_devoluciones
   \<and> (\<exists>c. col agrupado_devoluciones COLUMNA_VENDEDOR = Inr c \<and> ascendente c
           \<and> largo c = n_filas agrupado_devoluciones)"
proof -
  have h: "df_agrupado devoluciones = Inr agrupado_devoluciones" by code_simp
  from agrupado_ascendente [OF h] h show ?thesis by simp
qed



section \<open>Properties of the reporter\<close>

text \<open>
  Claim C7. For a table that has the columns the detail reads, and a requested
  salesperson that no record of the table carries, the detail is empty and nothing is
  raised: no rows, totals of 0, an empty list of regions, and a table without rows.
\<close>

theorem detalle_sin_registros:
  assumes k: "col df COLUMNA_VENDEDOR = Inr k"
    and v: "col df COLUMNA_VENTAS = Inr cv"
    and u: "col df COLUMNA_UNIDADES = Inr cu"
    and r: "col df COLUMNA_REGION = Inr cr"
    and none: "True \<notin> set (igual k vendedor_seleccionado)"
  shows "df_vendedor df vendedor_seleccionado = Inr (filas_donde [] df)
       \<and> n_filas (filas_donde [] df) = 0
       \<and> detalle_vendedor df vendedor_seleccionado =
           Inr \<lparr>kpi_v_ventas = 0, kpi_v_unidades = 0, kpi_v_region = [],
                tabla = solo_columnas (columnas_a_mostrar df) (filas_donde [] df)\<rparr>"
proof -
  have dv: "df_vendedor df vendedor_seleccionado = Inr (filas_donde [] df)"
    using k filas_donde_falso [OF none, of df] by (simp add: df_vendedor_def)
  have tv: "total_ventas (filas_donde [] df) = Inr 0"
    using col_filas_donde [OF v, of "[]"] by (simp add: total_ventas_def sum_col_vacia)
  have tu: "total_unidades (filas_donde [] df) = Inr 0"
    using col_filas_donde [OF u, of "[]"]
    by (simp add: total_unidades_def sum_col_vacia int_py_def)
  have jr: "col (filas_donde [] df) COLUMNA_REGION = Inr (tomar_col [] cr)"
    using r by (rule col_filas_donde)
  have cm: "columnas_a_mostrar (filas_donde [] df) = columnas_a_mostrar df"
    by (simp add: columnas_a_mostrar_def map_fst_filas_donde)
  show ?thesis
    by (simp add: dv detalle_vendedor_def tv tu jr join_unique_vacia cm n_filas_vacia)
qed

theorem detalle_sin_registros_witness:
  "True \<notin> set (igual (Texto [Some ''Ana Garcia'', Some ''Luis Perez'']) (Txt ''Eva Ruiz''))
   \<and> df_vendedor ventas_ejemplo (Txt ''Eva Ruiz'') = Inr (filas_donde [] ventas_ejemplo)
   \<and> n_filas (filas_donde [] ventas_ejemplo) = 0
   \<and> detalle_vendedor ventas_ejemplo (Txt ''Eva Ruiz'') =
        Inr \<lparr>kpi_v_ventas = 0, kpi_v_unidades = 0, kpi_v_region = [],
             tabla = solo_columnas (columnas_a_mostrar ventas_ejemplo)
                       (filas_donde [] ventas_ejemplo)\<rparr>"
proof -
  have k: "col ventas_ejemplo COLUMNA_VENDEDOR
         = Inr (Texto [Some ''Ana Garcia'', Some ''Luis Perez''])" by code_simp
  have v: "col ventas_ejemplo COLUMNA_VENTAS = Inr (Numerica [Some 100, Some 50])"
    by code_simp
  have u: "col ventas_ejemplo COLUMNA_UNIDADES = Inr (Numerica [Some 2, Some 1])"
    by code_simp
  have r: "col ventas_ejemplo COLUMNA_REGION = Inr (Texto [Some ''East'', Some ''West''])"
    by code_simp
  have n: "True \<notin> set (igual (Texto [Some ''Ana Garcia'', Some ''Luis Perez''])
                           (Txt ''Eva Ruiz''))"
    by code_simp
  from detalle_sin_registros [OF k v u r n] n show ?thesis by simp
qed

text \<open>
  Claim C3, as the script has it. When the body completes, the table under "Datos
  Completos" is the filtered table itself: every row and every column, the first-name,
  last-name and entity-name columns included. When an earlier section fails, the table
  is not shown.
\<close>

theorem datos_completos_sin_proyeccion:
  assumes "cuerpo df vendedor_seleccionado = (ss, e)"
  shows "(e = None \<longrightarrow> datos_completos ss = Some df)
       \<and> (e \<noteq> None \<longrightarrow> datos_completos ss = None)"
  using assms unfolding cuerpo_def
  by (auto split: sum.splits if_splits)

theorem datos_completos_sin_proyeccion_witness:
  "snd (cuerpo ventas_ejemplo (Some (Txt ''Ana Garcia''))) = None
   \<and> datos_completos (fst (cuerpo ventas_ejemplo (Some (Txt ''Ana Garcia''))))
       = Some ventas_ejemplo"
proof -
  have e: "snd (cuerpo ventas_ejemplo (Some (Txt ''Ana Garcia''))) = None" by code_simp
  have c: "cuerpo ventas_ejemplo (Some (Txt ''Ana Garcia''))
         = (fst (cuerpo ventas_ejemplo (Some (Txt ''Ana Garcia''))),
            snd (cuerpo ventas_ejemplo (Some (Txt ''Ana Garcia''))))"
    by simp
  from datos_completos_sin_proyeccion [OF c] e show ?thesis by blast
qed

text \<open>
  Claim C3 as stated fails on the example of two records: the table shown is the
  filtered table with its six columns, not the three-column projection.
\<close>

theorem datos_completos_counterexample:
  "datos_completos (fst (cuerpo ventas_ejemplo (Some (Txt ''Ana Garcia''))))
     = Some ventas_ejemplo
   \<and> datos_completos (fst (cuerpo ventas_ejemplo (Some (Txt ''Ana Garcia''))))
     \<noteq> Some (proyeccion_spec ventas_ejemplo)
   \<and> map fst ventas_ejemplo = [''NOMBRE'', ''APELLIDO'', ''REGION'', ''VENTAS TOTALES'',
                               ''UNIDADES VENDIDAS'', ''Vendedor'']
   \<and> map fst (proyeccion_spec ventas_ejemplo) = [''REGION'', ''VENTAS TOTALES'',
                                                 ''UNIDADES VENDIDAS'']"
  by code_simp

end
